theory Spec2Isabelle
  imports Complex_Main "HOL-Library.Sublist"
begin

section \<open>Stored payload: decoded JSON values\<close>

text \<open>
  The payload held by the coordinator is whatever \<^verbatim>\<open>resp.json()\<close> returned, or Python's
  \<^verbatim>\<open>None\<close> before the first successful cycle. A decoded JSON value is one of the Python
  objects below; \<open>JNull\<close> is Python's \<^verbatim>\<open>None\<close>. A dictionary is an association list
  read with \<open>map_of\<close>.

  Python floats are modelled as exact rationals: the binary rounding error of a conversion
  or an addition, NaN and the infinities are outside the model.
\<close>

datatype json =
    JNull
  | JBool bool
  | JInt int
  | JFloat rat
  | JStr string
  | JList "json list"
  | JDict "(string \<times> json) list"

datatype py_exn = TypeError | ValueError | AttributeError | OverflowError

text \<open>Truthiness of a Python object, as used by \<^verbatim>\<open>data or []\<close> and \<^verbatim>\<open>not data\<close>.\<close>

fun truthy :: "json \<Rightarrow> bool" where
  "truthy JNull = False"
| "truthy (JBool b) = b"
| "truthy (JInt i) = (i \<noteq> 0)"
| "truthy (JFloat q) = (q \<noteq> 0)"
| "truthy (JStr s) = (s \<noteq> [])"
| "truthy (JList xs) = (xs \<noteq> [])"
| "truthy (JDict kvs) = (kvs \<noteq> [])"

text \<open>\<^verbatim>\<open>x == n\<close> for an integer literal \<open>n\<close>: numbers compare by value, \<^verbatim>\<open>True\<close> is 1.\<close>

fun py_eq_int :: "json \<Rightarrow> int \<Rightarrow> bool" where
  "py_eq_int (JInt i) n = (i = n)"
| "py_eq_int (JFloat q) n = (q = of_int n)"
| "py_eq_int (JBool b) n = ((if b then 1 else 0) = n)"
| "py_eq_int JNull n = False"
| "py_eq_int (JStr s) n = False"
| "py_eq_int (JList xs) n = False"
| "py_eq_int (JDict kvs) n = False"

text \<open>
  \<^verbatim>\<open>float(val)\<close>. The conversion of a string (\<^verbatim>\<open>float("1.5")\<close>) is Python's own parser,
  taken as the parameter \<open>pf\<close>; \<open>None\<close> there is a \<^verbatim>\<open>ValueError\<close>. An integer that rounds
  to a double beyond the largest one, that is one of magnitude \<open>2 ^ 1024 - 2 ^ 970\<close> or
  more, raises \<^verbatim>\<open>OverflowError\<close>.
\<close>

definition FLOAT_LIMIT :: int where
  "FLOAT_LIMIT = 2 ^ 1024 - 2 ^ 970"

fun py_float :: "(string \<Rightarrow> rat option) \<Rightarrow> json \<Rightarrow> py_exn + rat" where
  "py_float pf (JInt i) =
     (if - FLOAT_LIMIT < i \<and> i < FLOAT_LIMIT then Inr (of_int i) else Inl OverflowError)"
| "py_float pf (JFloat q) = Inr q"
| "py_float pf (JBool b) = Inr (if b then 1 else 0)"
| "py_float pf (JStr s) = (case pf s of None \<Rightarrow> Inl ValueError | Some q \<Rightarrow> Inr q)"
| "py_float pf JNull = Inl TypeError"
| "py_float pf (JList xs) = Inl TypeError"
| "py_float pf (JDict kvs) = Inl TypeError"

text \<open>
  The objects a \<^verbatim>\<open>for\<close> loop runs over: the elements of a list, the keys of a dictionary,
  the characters of a string; anything else is not iterable.
\<close>

fun py_iter :: "json \<Rightarrow> py_exn + json list" where
  "py_iter (JList xs) = Inr xs"
| "py_iter (JDict kvs) = Inr (map (\<lambda>kv. JStr (fst kv)) kvs)"
| "py_iter (JStr s) = Inr (map (\<lambda>c. JStr [c]) s)"
| "py_iter JNull = Inl TypeError"
| "py_iter (JBool b) = Inl TypeError"
| "py_iter (JInt i) = Inl TypeError"
| "py_iter (JFloat q) = Inl TypeError"

text \<open>\<^verbatim>\<open>d.get(k, default)\<close> on a dictionary.\<close>

definition dict_get :: "(string \<times> json) list \<Rightarrow> string \<Rightarrow> json \<Rightarrow> json" where
  "dict_get kvs k dflt = (case map_of kvs k of None \<Rightarrow> dflt | Some v \<Rightarrow> v)"

text \<open>\<^verbatim>\<open>day.get("v", [])\<close>: an object that is no dictionary has no \<^verbatim>\<open>get\<close>.\<close>

fun day_get_v :: "json \<Rightarrow> py_exn + json" where
  "day_get_v (JDict kvs) = Inr (dict_get kvs ''v'' (JList []))"
| "day_get_v JNull = Inl AttributeError"
| "day_get_v (JBool b) = Inl AttributeError"
| "day_get_v (JInt i) = Inl AttributeError"
| "day_get_v (JFloat q) = Inl AttributeError"
| "day_get_v (JStr s) = Inl AttributeError"
| "day_get_v (JList xs) = Inl AttributeError"

text \<open>
  \<^verbatim>\<open>round(x, 3)\<close>: to the nearest multiple of \<open>1/1000\<close>, a tie going to the even one.
\<close>

definition round3 :: "rat \<Rightarrow> rat" where
  "round3 x =
     (let y = x * 1000; f = \<lfloor>y\<rfloor>; d = y - of_int f
      in of_int (if d < 1 / 2 then f
                 else if 1 / 2 < d then f + 1
                 else if even f then f else f + 1) / 1000)"

section \<open>The three sensors\<close>

subsection \<open>FluviusConsumptionSensor\<close>

text \<open>The inner loop \<^verbatim>\<open>for reading in day.get("v", [])\<close>, threading \<^verbatim>\<open>total\<close> (here \<open>tot\<close>).\<close>

fun consumption_readings :: "(string \<Rightarrow> rat option) \<Rightarrow> json list \<Rightarrow> rat \<Rightarrow> py_exn + rat" where
  "consumption_readings pf [] tot = Inr tot"
| "consumption_readings pf (JDict kvs # rs) tot =
     (case map_of kvs ''v'' of
        None \<Rightarrow> consumption_readings pf rs tot
      | Some JNull \<Rightarrow> consumption_readings pf rs tot
      | Some val \<Rightarrow>
          if py_eq_int (dict_get kvs ''dc'' (JInt 1)) 1
          then (case py_float pf val of
                  Inl e \<Rightarrow> Inl e
                | Inr x \<Rightarrow> consumption_readings pf rs (tot + x))
          else consumption_readings pf rs tot)"
| "consumption_readings pf (r # rs) tot = consumption_readings pf rs tot"

text \<open>The outer loop \<^verbatim>\<open>for day in data\<close>.\<close>

fun consumption_days :: "(string \<Rightarrow> rat option) \<Rightarrow> json list \<Rightarrow> rat \<Rightarrow> py_exn + rat" where
  "consumption_days pf [] tot = Inr tot"
| "consumption_days pf (day # days) tot =
     (case day_get_v day of
        Inl e \<Rightarrow> Inl e
      | Inr v \<Rightarrow>
          (case py_iter v of
             Inl e \<Rightarrow> Inl e
           | Inr rs \<Rightarrow>
               (case consumption_readings pf rs tot of
                  Inl e \<Rightarrow> Inl e
                | Inr tot' \<Rightarrow> consumption_days pf days tot')))"

text \<open>
  The property \<^verbatim>\<open>native_value\<close>; \<open>None\<close> is Python's \<^verbatim>\<open>None\<close>. The \<^verbatim>\<open>try\<close> block
  turns every exception of the loops into \<^verbatim>\<open>None\<close>.
\<close>

definition consumption_native_value :: "(string \<Rightarrow> rat option) \<Rightarrow> json \<Rightarrow> rat option" where
  "consumption_native_value pf data =
     (if \<not> truthy data then None
      else case py_iter data of
             Inl e \<Rightarrow> None
           | Inr days \<Rightarrow>
               (case consumption_days pf days 0 of
                  Inl e \<Rightarrow> None
                | Inr tot \<Rightarrow> Some (round3 tot)))"

subsection \<open>FluviusInjectionSensor\<close>

fun injection_readings :: "(string \<Rightarrow> rat option) \<Rightarrow> json list \<Rightarrow> rat \<Rightarrow> py_exn + rat" where
  "injection_readings pf [] tot = Inr tot"
| "injection_readings pf (JDict kvs # rs) tot =
     (case map_of kvs ''v'' of
        None \<Rightarrow> injection_readings pf rs tot
      | Some JNull \<Rightarrow> injection_readings pf rs tot
      | Some val \<Rightarrow>
          if py_eq_int (dict_get kvs ''dc'' (JInt 0)) 2
          then (case py_float pf val of
                  Inl e \<Rightarrow> Inl e
                | Inr x \<Rightarrow> injection_readings pf rs (tot + x))
          else injection_readings pf rs tot)"
| "injection_readings pf (r # rs) tot = injection_readings pf rs tot"

fun injection_days :: "(string \<Rightarrow> rat option) \<Rightarrow> json list \<Rightarrow> rat \<Rightarrow> py_exn + rat" where
  "injection_days pf [] tot = Inr tot"
| "injection_days pf (day # days) tot =
     (case day_get_v day of
        Inl e \<Rightarrow> Inl e
      | Inr v \<Rightarrow>
          (case py_iter v of
             Inl e \<Rightarrow> Inl e
           | Inr rs \<Rightarrow>
               (case injection_readings pf rs tot of
                  Inl e \<Rightarrow> Inl e
                | Inr tot' \<Rightarrow> injection_days pf days tot')))"

definition injection_native_value :: "(string \<Rightarrow> rat option) \<Rightarrow> json \<Rightarrow> rat option" where
  "injection_native_value pf data =
     (if \<not> truthy data then None
      else case py_iter data of
             Inl e \<Rightarrow> None
           | Inr days \<Rightarrow>
               (case injection_days pf days 0 of
                  Inl e \<Rightarrow> None
                | Inr tot \<Rightarrow> Some (round3 tot)))"

subsection \<open>FluviusNetSensor\<close>

text \<open>The loops thread the pair \<^verbatim>\<open>(cons, inj)\<close>.\<close>

fun net_readings ::
  "(string \<Rightarrow> rat option) \<Rightarrow> json list \<Rightarrow> rat \<times> rat \<Rightarrow> py_exn + rat \<times> rat" where
  "net_readings pf [] ci = Inr ci"
| "net_readings pf (JDict kvs # rs) ci =
     (case map_of kvs ''v'' of
        None \<Rightarrow> net_readings pf rs ci
      | Some JNull \<Rightarrow> net_readings pf rs ci
      | Some val \<Rightarrow>
          (let dc = dict_get kvs ''dc'' (JInt 0)
           in if py_eq_int dc 1
              then (case py_float pf val of
                      Inl e \<Rightarrow> Inl e
                    | Inr x \<Rightarrow> net_readings pf rs (fst ci + x, snd ci))
              else if py_eq_int dc 2
              then (case py_float pf val of
                      Inl e \<Rightarrow> Inl e
                    | Inr x \<Rightarrow> net_readings pf rs (fst ci, snd ci + x))
              else net_readings pf rs ci))"
| "net_readings pf (r # rs) ci = net_readings pf rs ci"

fun net_days ::
  "(string \<Rightarrow> rat option) \<Rightarrow> json list \<Rightarrow> rat \<times> rat \<Rightarrow> py_exn + rat \<times> rat" where
  "net_days pf [] ci = Inr ci"
| "net_days pf (day # days) ci =
     (case day_get_v day of
        Inl e \<Rightarrow> Inl e
      | Inr v \<Rightarrow>
          (case py_iter v of
             Inl e \<Rightarrow> Inl e
           | Inr rs \<Rightarrow>
               (case net_readings pf rs ci of
                  Inl e \<Rightarrow> Inl e
                | Inr ci' \<Rightarrow> net_days pf days ci')))"

definition net_native_value :: "(string \<Rightarrow> rat option) \<Rightarrow> json \<Rightarrow> rat option" where
  "net_native_value pf data =
     (if \<not> truthy data then None
      else case py_iter data of
             Inl e \<Rightarrow> None
           | Inr days \<Rightarrow>
               (case net_days pf days (0, 0) of
                  Inl e \<Rightarrow> None
                | Inr ci \<Rightarrow> Some (round3 (fst ci - snd ci))))"

section \<open>Properties of the sensors\<close>

lemma round3_0: "round3 0 = 0"
  by (simp add: round3_def)

text \<open>
  C4. With no stored payload (\<^verbatim>\<open>None\<close>) or an empty list as payload, each of the three
  sensors returns \<^verbatim>\<open>None\<close>, which is not the number 0; a payload of one day without
  readings gives the number 0, so the two cases are told apart.
\<close>

theorem native_value_unset_when_no_payload:
  "consumption_native_value pf JNull = None
   \<and> injection_native_value pf JNull = None
   \<and> net_native_value pf JNull = None
   \<and> consumption_native_value pf (JList []) = None
   \<and> injection_native_value pf (JList []) = None
   \<and> net_native_value pf (JList []) = None
   \<and> consumption_native_value pf (JList [JDict []]) = Some 0
   \<and> injection_native_value pf (JList [JDict []]) = Some 0
   \<and> net_native_value pf (JList [JDict []]) = Some 0
   \<and> (None :: rat option) \<noteq> Some 0"
  by (simp add: consumption_native_value_def injection_native_value_def
      net_native_value_def dict_get_def round3_0)

subsection \<open>A loop over a concatenation; entries that are passed over\<close>

lemma consumption_readings_append:
  "consumption_readings pf (rs1 @ rs2) tot =
     (case consumption_readings pf rs1 tot of Inl e \<Rightarrow> Inl e
      | Inr t \<Rightarrow> consumption_readings pf rs2 t)"
  by (induction pf rs1 tot rule: consumption_readings.induct)
     (simp_all split: option.splits json.splits sum.splits)

lemma injection_readings_append:
  "injection_readings pf (rs1 @ rs2) tot =
     (case injection_readings pf rs1 tot of Inl e \<Rightarrow> Inl e
      | Inr t \<Rightarrow> injection_readings pf rs2 t)"
  by (induction pf rs1 tot rule: injection_readings.induct)
     (simp_all split: option.splits json.splits sum.splits)

lemma net_readings_append:
  "net_readings pf (rs1 @ rs2) ci =
     (case net_readings pf rs1 ci of Inl e \<Rightarrow> Inl e
      | Inr t \<Rightarrow> net_readings pf rs2 t)"
  by (induction pf rs1 ci rule: net_readings.induct)
     (simp_all add: Let_def split: option.splits json.splits sum.splits)

lemma consumption_days_append:
  "consumption_days pf (ds1 @ ds2) tot =
     (case consumption_days pf ds1 tot of Inl e \<Rightarrow> Inl e
      | Inr t \<Rightarrow> consumption_days pf ds2 t)"
  by (induction ds1 arbitrary: tot) (simp_all split: sum.splits)

lemma injection_days_append:
  "injection_days pf (ds1 @ ds2) tot =
     (case injection_days pf ds1 tot of Inl e \<Rightarrow> Inl e
      | Inr t \<Rightarrow> injection_days pf ds2 t)"
  by (induction ds1 arbitrary: tot) (simp_all split: sum.splits)

lemma net_days_append:
  "net_days pf (ds1 @ ds2) ci =
     (case net_days pf ds1 ci of Inl e \<Rightarrow> Inl e
      | Inr t \<Rightarrow> net_days pf ds2 t)"
  by (induction ds1 arbitrary: ci) (simp_all split: sum.splits)


lemma consumption_readings_skip:
  "(case r of JDict kvs \<Rightarrow> map_of kvs ''v'' = None \<or> map_of kvs ''v'' = Some JNull | _ \<Rightarrow> True)
   \<Longrightarrow> consumption_readings pf (r # rs) tot = consumption_readings pf rs tot"
  by (cases r) auto

lemma injection_readings_skip:
  "(case r of JDict kvs \<Rightarrow> map_of kvs ''v'' = None \<or> map_of kvs ''v'' = Some JNull | _ \<Rightarrow> True)
   \<Longrightarrow> injection_readings pf (r # rs) tot = injection_readings pf rs tot"
  by (cases r) auto

lemma net_readings_skip:
  "(case r of JDict kvs \<Rightarrow> map_of kvs ''v'' = None \<or> map_of kvs ''v'' = Some JNull | _ \<Rightarrow> True)
   \<Longrightarrow> net_readings pf (r # rs) ci = net_readings pf rs ci"
  by (cases r) auto

lemma consumption_readings_skip_mid:
  assumes "case r of JDict kvs \<Rightarrow> map_of kvs ''v'' = None \<or> map_of kvs ''v'' = Some JNull | _ \<Rightarrow> True"
  shows "consumption_readings pf (rs1 @ r # rs2) tot = consumption_readings pf (rs1 @ rs2) tot"
  by (simp add: consumption_readings_append consumption_readings_skip [OF assms] split: sum.splits)

lemma injection_readings_skip_mid:
  assumes "case r of JDict kvs \<Rightarrow> map_of kvs ''v'' = None \<or> map_of kvs ''v'' = Some JNull | _ \<Rightarrow> True"
  shows "injection_readings pf (rs1 @ r # rs2) tot = injection_readings pf (rs1 @ rs2) tot"
  by (simp add: injection_readings_append injection_readings_skip [OF assms] split: sum.splits)

lemma net_readings_skip_mid:
  assumes "case r of JDict kvs \<Rightarrow> map_of kvs ''v'' = None \<or> map_of kvs ''v'' = Some JNull | _ \<Rightarrow> True"
  shows "net_readings pf (rs1 @ r # rs2) ci = net_readings pf (rs1 @ rs2) ci"
  by (simp add: net_readings_append net_readings_skip [OF assms] split: sum.splits)

lemma consumption_days_reading_skipped:
  assumes "case r of JDict kvs \<Rightarrow> map_of kvs ''v'' = None \<or> map_of kvs ''v'' = Some JNull | _ \<Rightarrow> True"
    and "map_of d ''v'' = Some (JList (rs1 @ r # rs2))"
    and "map_of d' ''v'' = Some (JList (rs1 @ rs2))"
  shows "consumption_days pf (ds1 @ JDict d # ds2) tot = consumption_days pf (ds1 @ JDict d' # ds2) tot"
  using assms(2,3)
  by (simp add: consumption_days_append dict_get_def consumption_readings_skip_mid [OF assms(1)] split: sum.splits)

lemma injection_days_reading_skipped:
  assumes "case r of JDict kvs \<Rightarrow> map_of kvs ''v'' = None \<or> map_of kvs ''v'' = Some JNull | _ \<Rightarrow> True"
    and "map_of d ''v'' = Some (JList (rs1 @ r # rs2))"
    and "map_of d' ''v'' = Some (JList (rs1 @ rs2))"
  shows "injection_days pf (ds1 @ JDict d # ds2) tot = injection_days pf (ds1 @ JDict d' # ds2) tot"
  using assms(2,3)
  by (simp add: injection_days_append dict_get_def injection_readings_skip_mid [OF assms(1)] split: sum.splits)

lemma net_days_reading_skipped:
  assumes "case r of JDict kvs \<Rightarrow> map_of kvs ''v'' = None \<or> map_of kvs ''v'' = Some JNull | _ \<Rightarrow> True"
    and "map_of d ''v'' = Some (JList (rs1 @ r # rs2))"
    and "map_of d' ''v'' = Some (JList (rs1 @ rs2))"
  shows "net_days pf (ds1 @ JDict d # ds2) ci = net_days pf (ds1 @ JDict d' # ds2) ci"
  using assms(2,3)
  by (simp add: net_days_append dict_get_def net_readings_skip_mid [OF assms(1)] split: sum.splits)

lemma consumption_days_day_skipped:
  "map_of d ''v'' = None \<Longrightarrow>
   consumption_days pf (ds1 @ JDict d # ds2) tot = consumption_days pf (ds1 @ ds2) tot"
  by (simp add: consumption_days_append dict_get_def split: sum.splits)

lemma injection_days_day_skipped:
  "map_of d ''v'' = None \<Longrightarrow>
   injection_days pf (ds1 @ JDict d # ds2) tot = injection_days pf (ds1 @ ds2) tot"
  by (simp add: injection_days_append dict_get_def split: sum.splits)

lemma net_days_day_skipped:
  "map_of d ''v'' = None \<Longrightarrow>
   net_days pf (ds1 @ JDict d # ds2) ci = net_days pf (ds1 @ ds2) ci"
  by (simp add: net_days_append dict_get_def split: sum.splits)

text \<open>
  C9. Each sensor's \<^verbatim>\<open>native_value\<close> is a total function of the payload (every loop is a
  structural recursion over a finite list and every exception is a value). In a non-empty
  payload list a reading that is no dictionary, or whose \<^verbatim>\<open>v\<close> is absent or \<^verbatim>\<open>None\<close>,
  can be removed without changing the result of any sensor; so can a day without a
  \<^verbatim>\<open>v\<close> key; and when the summation raises, the sensor returns \<^verbatim>\<open>None\<close>.
\<close>

theorem native_value_total_and_skipping:
  assumes r: "case r of JDict kvs \<Rightarrow> map_of kvs ''v'' = None \<or> map_of kvs ''v'' = Some JNull
                | _ \<Rightarrow> True"
    and d: "map_of d ''v'' = Some (JList (rs1 @ r # rs2))"
    and d': "map_of d' ''v'' = Some (JList (rs1 @ rs2))"
    and e: "map_of day ''v'' = None"
    and ne: "ds1 @ ds2 \<noteq> []"
  shows "consumption_native_value pf (JList (ds1 @ JDict d # ds2))
           = consumption_native_value pf (JList (ds1 @ JDict d' # ds2))
    \<and> injection_native_value pf (JList (ds1 @ JDict d # ds2))
           = injection_native_value pf (JList (ds1 @ JDict d' # ds2))
    \<and> net_native_value pf (JList (ds1 @ JDict d # ds2))
           = net_native_value pf (JList (ds1 @ JDict d' # ds2))
    \<and> consumption_native_value pf (JList (ds1 @ JDict day # ds2))
           = consumption_native_value pf (JList (ds1 @ ds2))
    \<and> injection_native_value pf (JList (ds1 @ JDict day # ds2))
           = injection_native_value pf (JList (ds1 @ ds2))
    \<and> net_native_value pf (JList (ds1 @ JDict day # ds2))
           = net_native_value pf (JList (ds1 @ ds2))
    \<and> (consumption_days pf days 0 = Inl ex \<longrightarrow> consumption_native_value pf (JList days) = None)
    \<and> (injection_days pf days 0 = Inl ex \<longrightarrow> injection_native_value pf (JList days) = None)
    \<and> (net_days pf days (0, 0) = Inl ex \<longrightarrow> net_native_value pf (JList days) = None)"
proof (intro conjI)
  show "consumption_native_value pf (JList (ds1 @ JDict d # ds2))
           = consumption_native_value pf (JList (ds1 @ JDict d' # ds2))"
    by (simp add: consumption_native_value_def consumption_days_reading_skipped [OF r d d'])
  show "injection_native_value pf (JList (ds1 @ JDict d # ds2))
           = injection_native_value pf (JList (ds1 @ JDict d' # ds2))"
    by (simp add: injection_native_value_def injection_days_reading_skipped [OF r d d'])
  show "net_native_value pf (JList (ds1 @ JDict d # ds2))
           = net_native_value pf (JList (ds1 @ JDict d' # ds2))"
    by (simp add: net_native_value_def net_days_reading_skipped [OF r d d'])
  show "consumption_native_value pf (JList (ds1 @ JDict day # ds2))
           = consumption_native_value pf (JList (ds1 @ ds2))"
    using ne by (simp add: consumption_native_value_def consumption_days_day_skipped [OF e])
  show "injection_native_value pf (JList (ds1 @ JDict day # ds2))
           = injection_native_value pf (JList (ds1 @ ds2))"
    using ne by (simp add: injection_native_value_def injection_days_day_skipped [OF e])
  show "net_native_value pf (JList (ds1 @ JDict day # ds2))
           = net_native_value pf (JList (ds1 @ ds2))"
    using ne by (simp add: net_native_value_def net_days_day_skipped [OF e])
  show "consumption_days pf days 0 = Inl ex \<longrightarrow> consumption_native_value pf (JList days) = None"
    by (simp add: consumption_native_value_def)
  show "injection_days pf days 0 = Inl ex \<longrightarrow> injection_native_value pf (JList days) = None"
    by (simp add: injection_native_value_def)
  show "net_days pf days (0, 0) = Inl ex \<longrightarrow> net_native_value pf (JList days) = None"
    by (simp add: net_native_value_def)
qed

text \<open>
  An instance: a day holding a consumption reading of 1.5 and a reading whose \<^verbatim>\<open>v\<close> is
  \<^verbatim>\<open>None\<close>, followed by a day without \<^verbatim>\<open>v\<close>; and the payload \<^verbatim>\<open>[3]\<close>, on which
  \<^verbatim>\<open>day.get\<close> raises.
\<close>

theorem native_value_total_and_skipping_witness:
  "consumption_native_value (\<lambda>s. None)
     (JList [JDict [(''v'', JList [JDict [(''dc'', JInt 1), (''v'', JFloat (3 / 2))],
                                  JDict [(''dc'', JInt 1), (''v'', JNull)]])],
             JDict [(''d'', JStr ''x'')]])
   = consumption_native_value (\<lambda>s. None)
     (JList [JDict [(''v'', JList [JDict [(''dc'', JInt 1), (''v'', JFloat (3 / 2))]])],
             JDict [(''d'', JStr ''x'')]])
   \<and> net_native_value (\<lambda>s. None)
        (JList [JDict [(''d'', JStr ''x'')], JDict [(''d'', JStr ''x'')]])
      = net_native_value (\<lambda>s. None) (JList [JDict [(''d'', JStr ''x'')]])
   \<and> injection_days (\<lambda>s. None) [JInt 3] 0 = Inl AttributeError
   \<and> injection_native_value (\<lambda>s. None) (JList [JInt 3]) = None"
proof -
  let ?r = "JDict [(''dc'', JInt 1), (''v'', JNull)]"
  let ?rs1 = "[JDict [(''dc'', JInt 1), (''v'', JFloat (3 / 2))]]"
  let ?d = "[(''v'', JList (?rs1 @ ?r # []))]"
  let ?d' = "[(''v'', JList (?rs1 @ []))]"
  let ?day = "[(''d'', JStr ''x'')]"
  have r: "case ?r of JDict kvs \<Rightarrow> map_of kvs ''v'' = None \<or> map_of kvs ''v'' = Some JNull
             | _ \<Rightarrow> True"
    by simp
  have d: "map_of ?d ''v'' = Some (JList (?rs1 @ ?r # []))" by simp
  have d': "map_of ?d' ''v'' = Some (JList (?rs1 @ []))" by simp
  have e: "map_of ?day ''v'' = None" by simp
  have ne: "[] @ [JDict ?day] \<noteq> []" by simp
  have x: "injection_days (\<lambda>s. None) [JInt 3] 0 = Inl AttributeError" by simp
  from native_value_total_and_skipping [OF r d d' e ne, of "\<lambda>s. None" "[JInt 3]" AttributeError] x
  show ?thesis by simp
qed

subsection \<open>A reading without a category code\<close>

text \<open>
  C2. A reading without a \<^verbatim>\<open>dc\<close> key whose value converts to the number \<open>x\<close>: the
  consumption loop adds \<open>x\<close> (its default code is 1), the injection loop and the net
  loop pass it over (their default code is 0). On the payload holding only this reading
  the consumption sensor shows \<open>x\<close> rounded, the other two show 0.
\<close>

theorem missing_dc_counted_by_consumption_only:
  assumes dc: "map_of r ''dc'' = None"
    and v: "map_of r ''v'' = Some val"
    and x: "py_float pf val = Inr x"
  shows "consumption_readings pf (JDict r # rs) tot = consumption_readings pf rs (tot + x)
    \<and> injection_readings pf (JDict r # rs) tot = injection_readings pf rs tot
    \<and> net_readings pf (JDict r # rs) ci = net_readings pf rs ci
    \<and> consumption_native_value pf (JList [JDict [(''v'', JList [JDict r])]]) = Some (round3 x)
    \<and> injection_native_value pf (JList [JDict [(''v'', JList [JDict r])]]) = Some 0
    \<and> net_native_value pf (JList [JDict [(''v'', JList [JDict r])]]) = Some 0"
proof -
  from x have nn: "val \<noteq> JNull" by auto
  have c: "consumption_readings pf (JDict r # rs) t = consumption_readings pf rs (t + x)" for rs t
    using dc v x nn by (cases val) (simp_all add: dict_get_def)
  have i: "injection_readings pf (JDict r # rs) t = injection_readings pf rs t" for rs t
    using dc v nn by (cases val) (simp_all add: dict_get_def)
  have n: "net_readings pf (JDict r # rs) p = net_readings pf rs p" for rs p
    using dc v nn by (cases val) (simp_all add: dict_get_def)
  show ?thesis
    by (simp add: c i n consumption_native_value_def injection_native_value_def
        net_native_value_def dict_get_def round3_0
        del: consumption_readings.simps(2) injection_readings.simps(2) net_readings.simps(2))
qed

theorem missing_dc_counted_by_consumption_only_witness:
  "consumption_native_value (\<lambda>s. None) (JList [JDict [(''v'', JList [JDict [(''v'', JFloat 5)]])]])
     = Some (round3 5)
   \<and> round3 5 = 5
   \<and> net_native_value (\<lambda>s. None) (JList [JDict [(''v'', JList [JDict [(''v'', JFloat 5)]])]])
     = Some 0"
proof -
  have dc: "map_of [(''v'', JFloat 5)] ''dc'' = None" by simp
  have v: "map_of [(''v'', JFloat 5)] ''v'' = Some (JFloat 5)" by simp
  have x: "py_float (\<lambda>s. None) (JFloat 5) = Inr 5" by simp
  have "round3 5 = 5" by (simp add: round3_def)
  with missing_dc_counted_by_consumption_only [OF dc v x] show ?thesis by simp
qed

subsection \<open>Net against consumption minus injection\<close>

text \<open>
  C1, at the payload \<^verbatim>\<open>[{"v": [{"v": 5.0}]}]\<close>: the consumption sensor shows 5, the
  injection sensor 0 and the net sensor 0, so net and consumption minus injection are 5
  apart, far beyond the rounding tolerance of three decimals.
\<close>

theorem net_is_not_consumption_minus_injection:
  "consumption_native_value pf (JList [JDict [(''v'', JList [JDict [(''v'', JFloat 5)]])]]) = Some 5
   \<and> injection_native_value pf (JList [JDict [(''v'', JList [JDict [(''v'', JFloat 5)]])]]) = Some 0
   \<and> net_native_value pf (JList [JDict [(''v'', JList [JDict [(''v'', JFloat 5)]])]]) = Some 0
   \<and> \<bar>(0::rat) - (5 - 0)\<bar> > 1 / 1000"
proof -
  have "round3 5 = 5" by (simp add: round3_def)
  then show ?thesis
    by (simp add: consumption_native_value_def injection_native_value_def
        net_native_value_def dict_get_def round3_0)
qed

section \<open>Token acquisition: the scan of the captured requests\<close>

text \<open>
  A request captured by the browser session, as \<^verbatim>\<open>_fetch_bearer_token_sync\<close> reads it:
  \<^verbatim>\<open>request.url\<close> and the outcome of \<^verbatim>\<open>request.headers.get("Authorization")\<close>
  (\<open>None\<close> when the header is absent).
\<close>

record captured_request =
  req_url :: string
  req_authorization :: "string option"

text \<open>Truthiness of an optional string: \<^verbatim>\<open>None\<close> and the empty string are false.\<close>

fun opt_truthy :: "string option \<Rightarrow> bool" where
  "opt_truthy None = False"
| "opt_truthy (Some s) = (s \<noteq> [])"

text \<open>\<^verbatim>\<open>sub in s\<close> on strings.\<close>

fun py_in :: "string \<Rightarrow> string \<Rightarrow> bool" where
  "py_in sub [] = (sub = [])"
| "py_in sub (c # cs) = (prefix sub (c # cs) \<or> py_in sub cs)"

text \<open>
  The loop \<^verbatim>\<open>for request in driver.requests\<close>. With the reads above as values nothing in
  its body raises, so the \<^verbatim>\<open>except: continue\<close> arm has no branch of its own.
\<close>

fun scan_requests :: "captured_request list \<Rightarrow> string option" where
  "scan_requests [] = None"
| "scan_requests (request # requests) =
     (if py_in ''/api/'' (req_url request) \<and> opt_truthy (req_authorization request)
      then (case req_authorization request of
              None \<Rightarrow> scan_requests requests
            | Some auth_header \<Rightarrow>
                if auth_header \<noteq> [] \<and> prefix ''Bearer'' auth_header
                then Some auth_header
                else scan_requests requests)
      else scan_requests requests)"

text \<open>
  What driving the browser gave: the list of captured requests, or a failure (the
  selenium import, a missing element, the login timeout or any other exception), on
  which the function returns \<^verbatim>\<open>None\<close>.
\<close>

datatype browser_run = BrowserFailed | Captured "captured_request list"

definition fetch_bearer_token_sync ::
  "(string \<Rightarrow> string \<Rightarrow> browser_run) \<Rightarrow> string \<Rightarrow> string \<Rightarrow> string option" where
  "fetch_bearer_token_sync browser usr pwd =
     (case browser usr pwd of
        BrowserFailed \<Rightarrow> None
      | Captured requests \<Rightarrow> scan_requests requests)"









section \<open>The coordinator\<close>

subsection \<open>State and construction\<close>

text \<open>
  The attributes of \<^verbatim>\<open>FluviusCoordinator\<close>; \<open>bearer_token\<close> is \<^verbatim>\<open>_bearer_token\<close>, the
  token cache.
\<close>

record coordinator =
  coord_name :: string
  username :: "string option"
  password :: "string option"
  bearer_token :: "string option"
  ean :: "string option"
  meter_id :: "string option"
  api_base :: string
  granularity :: string
  time_window_hours :: int
  update_interval :: int
  last_data :: "json option"

definition DEFAULT_GRANULARITY :: string where
  "DEFAULT_GRANULARITY = ''1''"

definition DEFAULT_TIME_WINDOW_HOURS :: int where
  "DEFAULT_TIME_WINDOW_HOURS = 24"

text \<open>\<^verbatim>\<open>x or default\<close> on an optional string and on an optional integer.\<close>

definition str_or :: "string option \<Rightarrow> string \<Rightarrow> string" where
  "str_or x dflt = (if opt_truthy x then the x else dflt)"

definition int_or :: "int option \<Rightarrow> int \<Rightarrow> int" where
  "int_or x dflt = (case x of None \<Rightarrow> dflt | Some n \<Rightarrow> if n = 0 then dflt else n)"

text \<open>\<^verbatim>\<open>s.rstrip("/")\<close>.\<close>

definition rstrip_slash :: "string \<Rightarrow> string" where
  "rstrip_slash s = rev (dropWhile (\<lambda>c. c = CHR ''/'') (rev s))"

text \<open>
  \<^verbatim>\<open>__init__\<close>. The arguments typed \<^verbatim>\<open>str | None\<close> are optional strings; the time window
  may be \<^verbatim>\<open>None\<close> as well, since it is read with \<^verbatim>\<open>or\<close>.
\<close>

definition coordinator_init ::
  "string \<Rightarrow> string option \<Rightarrow> string option \<Rightarrow> string option \<Rightarrow> string option
     \<Rightarrow> string option \<Rightarrow> string option \<Rightarrow> int option \<Rightarrow> int \<Rightarrow> coordinator" where
  "coordinator_init nm usr pwd ean_arg meter api gran hours interval =
     \<lparr>coord_name = nm,
      username = usr,
      password = pwd,
      bearer_token = None,
      ean = ean_arg,
      meter_id = meter,
      api_base = rstrip_slash (str_or api ''https://mijn.fluvius.be''),
      granularity = str_or gran DEFAULT_GRANULARITY,
      time_window_hours = int_or hours DEFAULT_TIME_WINDOW_HOURS,
      update_interval = interval,
      last_data = None\<rparr>"

lemma rstrip_slash_no_trailing: "\<not> suffix ''/'' (rstrip_slash s)"
proof
  assume "suffix ''/'' (rstrip_slash s)"
  then obtain p where p: "rstrip_slash s = p @ ''/''" by (auto simp: suffix_def)
  then have "rev (rstrip_slash s) = CHR ''/'' # rev p" by simp
  then have d: "dropWhile (\<lambda>c. c = CHR ''/'') (rev s) = CHR ''/'' # rev p"
    by (simp add: rstrip_slash_def)
  then have "dropWhile (\<lambda>c. c = CHR ''/'') (rev s) \<noteq> []" by simp
  from hd_dropWhile [OF this] d show False by simp
qed

text \<open>
  C10. The constructor replaces a time window of \<^verbatim>\<open>None\<close> or 0 by 24, a granularity of
  \<^verbatim>\<open>None\<close> or \<^verbatim>\<open>""\<close> by \<^verbatim>\<open>"1"\<close> and an API base of \<^verbatim>\<open>None\<close> or \<^verbatim>\<open>""\<close> by
  \<^verbatim>\<open>"https://mijn.fluvius.be"\<close>; the stored base is the given or default base without its
  trailing slashes, so it never ends in a slash.
\<close>

theorem coordinator_init_defaults:
  "time_window_hours (coordinator_init nm usr pwd e m api gran None iv) = 24
   \<and> time_window_hours (coordinator_init nm usr pwd e m api gran (Some 0) iv) = 24
   \<and> granularity (coordinator_init nm usr pwd e m api None hours iv) = ''1''
   \<and> granularity (coordinator_init nm usr pwd e m api (Some []) hours iv) = ''1''
   \<and> api_base (coordinator_init nm usr pwd e m None gran hours iv) = ''https://mijn.fluvius.be''
   \<and> api_base (coordinator_init nm usr pwd e m (Some []) gran hours iv) = ''https://mijn.fluvius.be''
   \<and> api_base (coordinator_init nm usr pwd e m (Some (a # as)) gran hours iv)
        = rstrip_slash (a # as)
   \<and> rstrip_slash ''https://mijn.fluvius.be///'' = ''https://mijn.fluvius.be''
   \<and> \<not> suffix ''/'' (api_base (coordinator_init nm usr pwd e m api gran hours iv))"
  by (simp add: coordinator_init_def int_or_def str_or_def rstrip_slash_def
      DEFAULT_GRANULARITY_def DEFAULT_TIME_WINDOW_HOURS_def
      rstrip_slash_no_trailing [unfolded rstrip_slash_def])

subsection \<open>Time\<close>

text \<open>
  An aware \<^verbatim>\<open>datetime\<close> is its number of microseconds since the epoch, a \<^verbatim>\<open>timedelta\<close> a
  number of microseconds. Python keeps a \<^verbatim>\<open>timedelta\<close> within 999999999 days and a
  \<^verbatim>\<open>datetime\<close> within the years 1 to 9999 and raises \<^verbatim>\<open>OverflowError\<close> beyond.
\<close>

definition timedelta_hours :: "int \<Rightarrow> py_exn + int" where
  "timedelta_hours h =
     (if - 999999999 \<le> h div 24 \<and> h div 24 \<le> 999999999
      then Inr (h * 3600000000)
      else Inl OverflowError)"

definition DATETIME_MIN :: int where
  "DATETIME_MIN = - 62135596800000000"

definition DATETIME_MAX :: int where
  "DATETIME_MAX = 253402300799999999"

definition datetime_minus :: "int \<Rightarrow> int \<Rightarrow> py_exn + int" where
  "datetime_minus dt delta =
     (if DATETIME_MIN \<le> dt - delta \<and> dt - delta \<le> DATETIME_MAX
      then Inr (dt - delta)
      else Inl OverflowError)"

text \<open>
  The window of a cycle: \<^verbatim>\<open>until = datetime.now(timezone.utc)\<close>,
  \<^verbatim>\<open>since = until - timedelta(hours=self.time_window_hours)\<close>, returned as
  \<open>(since, until)\<close>.
\<close>

definition polling_window :: "int \<Rightarrow> int \<Rightarrow> py_exn + int \<times> int" where
  "polling_window now hours =
     (let until = now
      in case timedelta_hours hours of
           Inl err \<Rightarrow> Inl err
         | Inr delta \<Rightarrow>
             (case datetime_minus until delta of
                Inl err \<Rightarrow> Inl err
              | Inr since \<Rightarrow> Inr (since, until)))"

text \<open>
  \<^verbatim>\<open>fmt(dt) = dt.astimezone().strftime("%Y-%m-%dT%H:%M:%S.000%z")\<close> prints the wall clock
  of the local time zone to the second, and the zone's offset from UTC at that instant.
  The printed text is kept as these two numbers (the calendar digits are a one-to-one
  rendering of them): the seconds on the local wall clock, counted from the epoch, and
  the offset in seconds. \<open>off\<close> is the offset of the system's time zone at an instant.
\<close>

record formatted_time =
  local_seconds :: int
  offset_seconds :: int

definition fmt :: "(int \<Rightarrow> int) \<Rightarrow> int \<Rightarrow> formatted_time" where
  "fmt off dt = \<lparr>local_seconds = dt div 1000000 + off dt, offset_seconds = off dt\<rparr>"

text \<open>The instant a printed time denotes, in seconds since the epoch.\<close>

definition instant_of :: "formatted_time \<Rightarrow> int" where
  "instant_of ft = local_seconds ft - offset_seconds ft"

subsection \<open>The update cycle\<close>

text \<open>The request of \<^verbatim>\<open>session.get\<close>: the URL, the query parameters, the headers, the timeout.\<close>

record request =
  rq_url :: string
  rq_historyFrom :: formatted_time
  rq_historyUntil :: formatted_time
  rq_granularity :: string
  rq_asServiceProvider :: string
  rq_meterSerialNumber :: string
  rq_Authorization :: string
  rq_Accept :: string
  rq_User_Agent :: string
  rq_timeout :: int

text \<open>
  The response: \<^verbatim>\<open>resp.status\<close>, and the outcomes of \<^verbatim>\<open>await resp.text()\<close> and
  \<^verbatim>\<open>await resp.json()\<close>, each of which may raise.
\<close>

record response =
  status :: int
  body_text :: "string + string"
  body_json :: "string + json"

text \<open>
  What a cycle meets outside the coordinator: the browser run behind the token fetch, the
  clock, the local time zone and the HTTP session (\<open>Inl\<close> when \<^verbatim>\<open>session.get\<close> raises).
\<close>

record env =
  browser :: "string \<Rightarrow> string \<Rightarrow> browser_run"
  now_utc :: int
  utcoffset :: "int \<Rightarrow> int"
  session_get :: "request \<Rightarrow> string + response"

text \<open>
  \<^verbatim>\<open>UpdateFailed\<close>, by the place that raises it:
  \<^item> \<open>NoCredentials\<close>: "No username/password configured to acquire token";
  \<^item> \<open>TokenNotRetrieved\<close>: "Failed to retrieve bearer token using provided credentials";
  \<^item> \<open>HttpStatus st txt\<close>: "HTTP " with \<^verbatim>\<open>resp.status\<close>, ": " and \<^verbatim>\<open>text[:300]\<close>;
  \<^item> \<open>InvalidJson err\<close>: "Invalid JSON response: " with \<^verbatim>\<open>err\<close>;
  \<^item> \<open>FetchError err\<close>: "Error fetching Fluvius data: " with \<^verbatim>\<open>err\<close>.

  The exception that the last handler wraps is one Python itself raised, or one the HTTP
  session raised, kept as its text \<^verbatim>\<open>str(err)\<close>.
\<close>

datatype caught = Builtin py_exn | Raised string

datatype update_failed =
    NoCredentials
  | TokenNotRetrieved
  | HttpStatus int string
  | InvalidJson string
  | FetchError caught

text \<open>What a cycle does to the outside, in order: a token acquisition, an HTTP request.\<close>

datatype event = Acquire string string | HttpGet request

text \<open>\<^verbatim>\<open>_set_bearer_token\<close>.\<close>

definition set_bearer_token :: "string option \<Rightarrow> coordinator \<Rightarrow> coordinator" where
  "set_bearer_token token s = s\<lparr>bearer_token := token\<rparr>"

text \<open>\<^verbatim>\<open>_async_get_bearer_token_if_needed\<close>: the result, the coordinator after, the events.\<close>

definition async_get_bearer_token_if_needed ::
  "env \<Rightarrow> coordinator \<Rightarrow> (update_failed + string) \<times> coordinator \<times> event list" where
  "async_get_bearer_token_if_needed ev s =
     (if opt_truthy (bearer_token s) then (Inr (the (bearer_token s)), s, [])
      else if \<not> opt_truthy (username s) \<or> \<not> opt_truthy (password s)
      then (Inl NoCredentials, s, [])
      else (let usr = the (username s);
                pwd = the (password s);
                token = fetch_bearer_token_sync (browser ev) usr pwd
            in if \<not> opt_truthy token then (Inl TokenNotRetrieved, s, [Acquire usr pwd])
               else (Inr (the token), set_bearer_token token s, [Acquire usr pwd])))"

text \<open>The request a cycle builds from the token and the window.\<close>

definition build_request :: "env \<Rightarrow> coordinator \<Rightarrow> string \<Rightarrow> int \<Rightarrow> int \<Rightarrow> request" where
  "build_request ev s token since until =
     \<lparr>rq_url = api_base s @ ''/verbruik/api/meter-measurement-history/'' @ str_or (ean s) [],
      rq_historyFrom = fmt (utcoffset ev) since,
      rq_historyUntil = fmt (utcoffset ev) until,
      rq_granularity = granularity s,
      rq_asServiceProvider = ''false'',
      rq_meterSerialNumber = str_or (meter_id s) [],
      rq_Authorization = token,
      rq_Accept = ''application/json'',
      rq_User_Agent = ''HomeAssistant/Integration'',
      rq_timeout = 60\<rparr>"

text \<open>
  \<^verbatim>\<open>_async_update_data\<close>: the payload or the \<^verbatim>\<open>UpdateFailed\<close> raised, the coordinator
  after the cycle, and the events of the cycle. An exception other than \<^verbatim>\<open>UpdateFailed\<close>
  inside the \<^verbatim>\<open>try\<close> is wrapped as \<open>FetchError\<close>. Getting the client session, before the
  \<^verbatim>\<open>try\<close>, is taken to succeed, and so is printing the two times, which Python refuses
  only when the local wall clock leaves the years 1 to 9999.
\<close>

definition async_update_data ::
  "env \<Rightarrow> coordinator \<Rightarrow> (update_failed + json) \<times> coordinator \<times> event list" where
  "async_update_data ev s =
     (case async_get_bearer_token_if_needed ev s of
        (Inl failed, s1, tr) \<Rightarrow> (Inl failed, s1, tr)
      | (Inr token, s1, tr) \<Rightarrow>
          (case polling_window (now_utc ev) (time_window_hours s1) of
             Inl err \<Rightarrow> (Inl (FetchError (Builtin err)), s1, tr)
           | Inr (since, until) \<Rightarrow>
               (let rq = build_request ev s1 token since until
                in case session_get ev rq of
                     Inl err \<Rightarrow> (Inl (FetchError (Raised err)), s1, tr @ [HttpGet rq])
                   | Inr resp \<Rightarrow>
                       (case body_text resp of
                          Inl err \<Rightarrow> (Inl (FetchError (Raised err)), s1, tr @ [HttpGet rq])
                        | Inr txt \<Rightarrow>
                            if status resp \<noteq> 200
                            then (Inl (HttpStatus (status resp) (take 300 txt)),
                                  (if status resp = 401 then set_bearer_token None s1 else s1),
                                  tr @ [HttpGet rq])
                            else (case body_json resp of
                                    Inl err \<Rightarrow> (Inl (InvalidJson err), s1, tr @ [HttpGet rq])
                                  | Inr data \<Rightarrow>
                                      (Inr data, s1\<lparr>last_data := Some data\<rparr>,
                                       tr @ [HttpGet rq]))))))"


subsection \<open>The steps of a cycle\<close>

lemma opt_truthy_iff: "opt_truthy x = (\<exists>t. x = Some t \<and> t \<noteq> [])"
  by (cases x) simp_all

lemma token_step_ok:
  assumes "async_get_bearer_token_if_needed ev s = (Inr token, s1, tr)"
  shows "s1 = s\<lparr>bearer_token := Some token\<rparr>" and "token \<noteq> []"
    and "(bearer_token s = Some token \<and> tr = []) \<or>
         (\<not> opt_truthy (bearer_token s) \<and>
          (\<exists>usr pwd. username s = Some usr \<and> usr \<noteq> [] \<and> password s = Some pwd \<and> pwd \<noteq> []
             \<and> tr = [Acquire usr pwd]
             \<and> fetch_bearer_token_sync (browser ev) usr pwd = Some token))"
  using assms
  by (auto simp: async_get_bearer_token_if_needed_def set_bearer_token_def Let_def opt_truthy_iff
      split: if_splits)

lemma token_step_failed:
  assumes "async_get_bearer_token_if_needed ev s = (Inl failed, s1, tr)"
  shows "s1 = s" and "\<not> opt_truthy (bearer_token s)"
    and "\<forall>rq. HttpGet rq \<notin> set tr"
  using assms
  by (auto simp: async_get_bearer_token_if_needed_def set_bearer_token_def Let_def
      split: if_splits)


lemma update_request:
  assumes "async_update_data ev s = (res, s', tr)" and "HttpGet rq \<in> set tr"
  shows "\<exists>token s1 tr1 since until.
           async_get_bearer_token_if_needed ev s = (Inr token, s1, tr1)
           \<and> polling_window (now_utc ev) (time_window_hours s) = Inr (since, until)
           \<and> rq = build_request ev s1 token since until
           \<and> tr = tr1 @ [HttpGet rq]"
proof (cases "async_get_bearer_token_if_needed ev s")
  case (fields r s1 tr1)
  show ?thesis
  proof (cases r)
    case (Inl failed)
    with fields assms token_step_failed(3) [of ev s failed s1 tr1] show ?thesis
      by (simp add: async_update_data_def)
  next
    case (Inr token)
    with fields have t: "async_get_bearer_token_if_needed ev s = (Inr token, s1, tr1)" by simp
    have tw: "time_window_hours s1 = time_window_hours s"
      using token_step_ok(1) [OF t] by simp
    have notr: "HttpGet rq \<notin> set tr1"
      using token_step_ok(3) [OF t] by auto
    show ?thesis
      using assms notr tw
      by (auto simp: async_update_data_def t Let_def split: sum.splits prod.splits if_splits)
  qed
qed

lemma update_not_ok_status:
  assumes "async_get_bearer_token_if_needed ev s = (Inr token, s1, tr1)"
    and "polling_window (now_utc ev) (time_window_hours s) = Inr (since, until)"
    and "session_get ev (build_request ev s1 token since until) = Inr resp"
    and "body_text resp = Inr txt"
    and "status resp \<noteq> 200"
  shows "async_update_data ev s =
           (Inl (HttpStatus (status resp) (take 300 txt)),
            (if status resp = 401 then s1\<lparr>bearer_token := None\<rparr> else s1),
            tr1 @ [HttpGet (build_request ev s1 token since until)])"
proof -
  have tw: "time_window_hours s1 = time_window_hours s"
    using token_step_ok(1) [OF assms(1)] by simp
  show ?thesis
    using assms(2-) by (simp add: async_update_data_def assms(1) tw Let_def set_bearer_token_def)
qed



lemma update_state:
  "\<exists>s1. s1 = fst (snd (async_get_bearer_token_if_needed ev s))
     \<and> (fst (snd (async_update_data ev s)) = s1
        \<or> fst (snd (async_update_data ev s)) = s1\<lparr>bearer_token := None\<rparr>
        \<or> (\<exists>d. fst (snd (async_update_data ev s)) = s1\<lparr>last_data := Some d\<rparr>))"
  by (auto simp: async_update_data_def Let_def set_bearer_token_def
      split: sum.splits prod.splits)



subsection \<open>An example run\<close>

text \<open>
  A coordinator as \<^verbatim>\<open>__init__\<close> builds it, and surroundings in which the browser run
  captures one API request carrying a bearer token and the server answers every request
  with the status \<open>st\<close> and the body \<^verbatim>\<open>denied\<close>; the clock stands at 2025-11-05 00:00 UTC,
  the local zone is one hour ahead of UTC.
\<close>

definition example_coordinator :: coordinator where
  "example_coordinator =
     coordinator_init ''home'' (Some ''user@example.com'') (Some ''secret'')
       (Some ''541448800000000000'') (Some ''1SAG1100000000'') None None None 300"

definition example_env :: "int \<Rightarrow> env" where
  "example_env st =
     \<lparr>browser = (\<lambda>usr pwd. Captured
        [\<lparr>req_url = ''https://mijn.fluvius.be/verbruik/api/meters'',
          req_authorization = Some ''Bearer abc''\<rparr>]),
      now_utc = 1762300800000000,
      utcoffset = (\<lambda>t. 3600),
      session_get = (\<lambda>rq. Inr \<lparr>status = st, body_text = Inr ''denied'',
                                 body_json = Inl ''Expecting value''\<rparr>)\<rparr>"

lemma example_token:
  "async_get_bearer_token_if_needed (example_env st) example_coordinator =
     (Inr ''Bearer abc'', example_coordinator\<lparr>bearer_token := Some ''Bearer abc''\<rparr>,
      [Acquire ''user@example.com'' ''secret''])"
  by (simp add: async_get_bearer_token_if_needed_def example_env_def example_coordinator_def
      coordinator_init_def fetch_bearer_token_sync_def set_bearer_token_def Let_def)

lemma example_window:
  "polling_window (now_utc (example_env st)) (time_window_hours example_coordinator)
     = Inr (1762214400000000, 1762300800000000)"
  by (simp add: polling_window_def timedelta_hours_def datetime_minus_def DATETIME_MIN_def
      DATETIME_MAX_def example_env_def example_coordinator_def coordinator_init_def int_or_def
      DEFAULT_TIME_WINDOW_HOURS_def Let_def)

lemma example_cycle:
  "st \<noteq> 200 \<Longrightarrow>
   async_update_data (example_env st) example_coordinator =
     (Inl (HttpStatus st ''denied''),
      (if st = 401 then example_coordinator\<lparr>bearer_token := None\<rparr>
       else example_coordinator\<lparr>bearer_token := Some ''Bearer abc''\<rparr>),
      [Acquire ''user@example.com'' ''secret'',
       HttpGet (build_request (example_env st)
                  (example_coordinator\<lparr>bearer_token := Some ''Bearer abc''\<rparr>)
                  ''Bearer abc'' 1762214400000000 1762300800000000)])"
proof -
  assume st: "st \<noteq> 200"
  have r: "session_get (example_env st) rq
     = Inr \<lparr>status = st, body_text = Inr ''denied'', body_json = Inl ''Expecting value''\<rparr>" for rq
    by (simp add: example_env_def)
  show ?thesis
    using st by (simp add: async_update_data_def example_token example_window r Let_def set_bearer_token_def)
qed

lemma example_cycle_cached:
  "st \<noteq> 200 \<Longrightarrow> st \<noteq> 401 \<Longrightarrow>
   async_update_data (example_env st) (set_bearer_token (Some ''Bearer old'') example_coordinator) =
     (Inl (HttpStatus st ''denied''),
      set_bearer_token (Some ''Bearer old'') example_coordinator,
      [HttpGet (build_request (example_env st)
                  (set_bearer_token (Some ''Bearer old'') example_coordinator)
                  ''Bearer old'' 1762214400000000 1762300800000000)])"
proof -
  assume st: "st \<noteq> 200" "st \<noteq> 401"
  let ?s = "set_bearer_token (Some ''Bearer old'') example_coordinator"
  have r: "session_get (example_env st) rq
     = Inr \<lparr>status = st, body_text = Inr ''denied'', body_json = Inl ''Expecting value''\<rparr>" for rq
    by (simp add: example_env_def)
  have t: "async_get_bearer_token_if_needed (example_env st) ?s = (Inr ''Bearer old'', ?s, [])"
    by (simp add: async_get_bearer_token_if_needed_def set_bearer_token_def)
  have w: "polling_window (now_utc (example_env st)) (time_window_hours ?s)
     = Inr (1762214400000000, 1762300800000000)"
    using example_window [of st] by (simp add: set_bearer_token_def)
  show ?thesis
    using st by (simp add: async_update_data_def t w r Let_def)
qed

text \<open>
  The same surroundings, but reading the body of the response raises; and the coordinator
  with the token of the browser run in its cache.
\<close>

definition example_env_unreadable :: "int \<Rightarrow> env" where
  "example_env_unreadable st =
     \<lparr>browser = (\<lambda>usr pwd. Captured
        [\<lparr>req_url = ''https://mijn.fluvius.be/verbruik/api/meters'',
          req_authorization = Some ''Bearer abc''\<rparr>]),
      now_utc = 1762300800000000,
      utcoffset = (\<lambda>t. 3600),
      session_get = (\<lambda>rq. Inr \<lparr>status = st,
                                 body_text = Inl ''Response payload is not completed'',
                                 body_json = Inl ''Expecting value''\<rparr>)\<rparr>"

definition example_cached :: coordinator where
  "example_cached = set_bearer_token (Some ''Bearer abc'') example_coordinator"


lemma example_cached_token_step:
  "async_get_bearer_token_if_needed ev example_cached = (Inr ''Bearer abc'', example_cached, [])"
  by (simp add: async_get_bearer_token_if_needed_def example_cached_def set_bearer_token_def)

lemma example_cycle_unreadable:
  "async_update_data (example_env_unreadable st) example_cached =
     (Inl (FetchError (Raised ''Response payload is not completed'')),
      example_cached,
      [HttpGet (build_request (example_env_unreadable st) example_cached
                  ''Bearer abc'' 1762214400000000 1762300800000000)])"
proof -
  have r: "session_get (example_env_unreadable st) rq
     = Inr \<lparr>status = st, body_text = Inl ''Response payload is not completed'',
            body_json = Inl ''Expecting value''\<rparr>" for rq
    by (simp add: example_env_unreadable_def)
  have n: "now_utc (example_env_unreadable st) = now_utc (example_env st)"
    by (simp add: example_env_unreadable_def example_env_def)
  have w: "polling_window (now_utc (example_env_unreadable st)) (time_window_hours example_cached)
     = Inr (1762214400000000, 1762300800000000)"
    using example_window [of st] by (simp add: n example_cached_def set_bearer_token_def)
  show ?thesis
    by (simp add: async_update_data_def example_cached_token_step w r Let_def)
qed

subsection \<open>A response with the status 401\<close>




subsection \<open>A response with another status\<close>

text \<open>
  C5 as stated fails in two ways. On a cycle that starts with an empty token cache the
  cycle acquires a token before it sends the request, so the cache is not what it was when
  the cycle began. And on a cycle whose response has the status 500 and a body that cannot
  be read, the failure carries the wrapped exception and neither the status nor a body.
\<close>

theorem other_status_counterexample:
  "fst (async_update_data (example_env 500) example_coordinator) = Inl (HttpStatus 500 ''denied'')
   \<and> bearer_token example_coordinator = None
   \<and> bearer_token (fst (snd (async_update_data (example_env 500) example_coordinator)))
        = Some ''Bearer abc''
   \<and> bearer_token (fst (snd (async_update_data (example_env 500) example_coordinator)))
        \<noteq> bearer_token example_coordinator
   \<and> session_get (example_env_unreadable 500)
        (build_request (example_env_unreadable 500) example_cached
           ''Bearer abc'' 1762214400000000 1762300800000000)
      = Inr \<lparr>status = 500, body_text = Inl ''Response payload is not completed'',
             body_json = Inl ''Expecting value''\<rparr>
   \<and> async_update_data (example_env_unreadable 500) example_cached
      = (Inl (FetchError (Raised ''Response payload is not completed'')),
         example_cached,
         [HttpGet (build_request (example_env_unreadable 500) example_cached
                     ''Bearer abc'' 1762214400000000 1762300800000000)])"
proof -
  have r: "session_get (example_env_unreadable 500) rq
     = Inr \<lparr>status = 500, body_text = Inl ''Response payload is not completed'',
            body_json = Inl ''Expecting value''\<rparr>" for rq
    by (simp add: example_env_unreadable_def)
  have "bearer_token example_coordinator = None"
    by (simp add: example_coordinator_def coordinator_init_def)
  with example_cycle [of 500] show ?thesis
    by (simp add: r example_cycle_unreadable)
qed

text \<open>
  C5, amended. In a cycle whose response has a status other than 200 and 401 and whose
  body was read, the cycle fails with the status and the first 300 characters of the body,
  and the handling of the response leaves the cache alone: after the cycle it holds the
  token that was sent with the request. That is the token cached before the cycle when
  there was one; otherwise it is the token the cycle acquired before sending.
\<close>

theorem other_status_token_not_invalidated:
  assumes upd: "async_update_data ev s = (res, s', tr)"
    and sent: "HttpGet rq \<in> set tr"
    and resp: "session_get ev rq = Inr resp"
    and body: "body_text resp = Inr txt"
    and st: "status resp \<noteq> 200" "status resp \<noteq> 401"
  shows "res = Inl (HttpStatus (status resp) (take 300 txt))
    \<and> length (take 300 txt) \<le> 300
    \<and> bearer_token s' = Some (rq_Authorization rq)
    \<and> (if opt_truthy (bearer_token s)
        then bearer_token s' = bearer_token s \<and> tr = [HttpGet rq]
        else \<exists>usr pwd. tr = [Acquire usr pwd, HttpGet rq]
               \<and> fetch_bearer_token_sync (browser ev) usr pwd = bearer_token s')"
proof -
  from update_request [OF upd sent] obtain token s1 tr1 since until where
    t: "async_get_bearer_token_if_needed ev s = (Inr token, s1, tr1)"
    and w: "polling_window (now_utc ev) (time_window_hours s) = Inr (since, until)"
    and rq: "rq = build_request ev s1 token since until"
    and tr: "tr = tr1 @ [HttpGet rq]"
    by blast
  from update_not_ok_status [OF t w resp [unfolded rq] body st(1)] upd st(2)
  have res: "res = Inl (HttpStatus (status resp) (take 300 txt))" and s': "s' = s1"
    by simp_all
  have s1: "s1 = s\<lparr>bearer_token := Some token\<rparr>" by (rule token_step_ok(1) [OF t])
  have a: "rq_Authorization rq = token" by (simp add: rq build_request_def)
  have tok: "bearer_token s' = Some (rq_Authorization rq)" by (simp add: s' s1 a)
  have "if opt_truthy (bearer_token s)
        then bearer_token s' = bearer_token s \<and> tr = [HttpGet rq]
        else \<exists>usr pwd. tr = [Acquire usr pwd, HttpGet rq]
               \<and> fetch_bearer_token_sync (browser ev) usr pwd = bearer_token s'"
    using token_step_ok(2,3) [OF t] tr by (auto simp: s' s1 opt_truthy_iff)
  with res tok show ?thesis by simp
qed

theorem other_status_token_not_invalidated_witness:
  "fst (async_update_data (example_env 503)
          (set_bearer_token (Some ''Bearer old'') example_coordinator))
     = Inl (HttpStatus 503 ''denied'')
   \<and> bearer_token (fst (snd (async_update_data (example_env 503)
          (set_bearer_token (Some ''Bearer old'') example_coordinator))))
     = Some ''Bearer old''
   \<and> bearer_token (set_bearer_token (Some ''Bearer old'') example_coordinator)
     = Some ''Bearer old''"
proof -
  let ?s = "set_bearer_token (Some ''Bearer old'') example_coordinator"
  let ?rq = "build_request (example_env 503) ?s ''Bearer old'' 1762214400000000 1762300800000000"
  let ?resp = "\<lparr>status = 503, body_text = Inr ''denied'', body_json = Inl ''Expecting value''\<rparr>"
  have upd: "async_update_data (example_env 503) ?s
      = (Inl (HttpStatus 503 ''denied''), ?s, [HttpGet ?rq])"
    using example_cycle_cached [of 503] by simp
  have sent: "HttpGet ?rq \<in> set [HttpGet ?rq]" by simp
  have resp: "session_get (example_env 503) ?rq = Inr ?resp"
    by (simp add: example_env_def)
  have body: "body_text ?resp = Inr ''denied''" by simp
  have st: "status ?resp \<noteq> 200" "status ?resp \<noteq> 401" by simp_all
  have c: "bearer_token ?s = Some ''Bearer old''" by (simp add: set_bearer_token_def)
  from other_status_token_not_invalidated [OF upd sent resp body st] upd c
  show ?thesis by simp
qed

subsection \<open>The polling window\<close>

lemma instant_of_fmt: "instant_of (fmt off dt) = dt div 1000000"
  by (simp add: instant_of_def fmt_def)

lemma div_hours: "(u - h * 3600000000) div 1000000 = u div 1000000 - h * (3600::int)"
proof -
  have "u - h * 3600000000 = u + (- (h * 3600)) * 1000000" by simp
  moreover have "(u + (- (h * 3600)) * 1000000) div 1000000 = - (h * 3600) + u div 1000000"
    by (rule div_mult_self1) simp
  ultimately show ?thesis by simp
qed

lemma polling_window_ok:
  assumes "polling_window now hours = Inr (since, until)"
  shows "until = now" and "since = until - hours * 3600000000"
  using assms
  by (auto simp: polling_window_def timedelta_hours_def datetime_minus_def Let_def
      split: if_splits sum.splits)

text \<open>
  C6. In every cycle that sends a request, \<open>until\<close> is the current UTC time, \<open>since\<close> is
  \<open>until\<close> minus the configured number of hours exactly, \<^verbatim>\<open>historyFrom\<close> and
  \<^verbatim>\<open>historyUntil\<close> are the two printed, the instants they denote lie that many hours
  apart, and with a time window of at least one hour \<^verbatim>\<open>historyFrom\<close> is earlier than
  \<^verbatim>\<open>historyUntil\<close>.
\<close>

theorem polling_window_since_until:
  assumes upd: "async_update_data ev s = (res, s', tr)"
    and sent: "HttpGet rq \<in> set tr"
  shows "\<exists>since until.
      polling_window (now_utc ev) (time_window_hours s) = Inr (since, until)
      \<and> until = now_utc ev
      \<and> since = until - time_window_hours s * 3600000000
      \<and> rq_historyFrom rq = fmt (utcoffset ev) since
      \<and> rq_historyUntil rq = fmt (utcoffset ev) until
      \<and> instant_of (rq_historyUntil rq) - instant_of (rq_historyFrom rq)
            = time_window_hours s * 3600
      \<and> (1 \<le> time_window_hours s \<longrightarrow>
            instant_of (rq_historyFrom rq) < instant_of (rq_historyUntil rq))"
proof -
  from update_request [OF upd sent] obtain token s1 since until where
    w: "polling_window (now_utc ev) (time_window_hours s) = Inr (since, until)"
    and rq: "rq = build_request ev s1 token since until"
    by blast
  note ok = polling_window_ok [OF w]
  have f: "rq_historyFrom rq = fmt (utcoffset ev) since"
    and u: "rq_historyUntil rq = fmt (utcoffset ev) until"
    by (simp_all add: rq build_request_def)
  have d: "instant_of (rq_historyUntil rq) - instant_of (rq_historyFrom rq)
            = time_window_hours s * 3600"
    by (simp add: f u instant_of_fmt ok(2) div_hours)
  then have "1 \<le> time_window_hours s \<longrightarrow>
      instant_of (rq_historyFrom rq) < instant_of (rq_historyUntil rq)"
    by auto
  with w ok f u d show ?thesis by blast
qed

theorem polling_window_since_until_witness:
  "(1::int) \<le> time_window_hours example_coordinator
   \<and> polling_window (now_utc (example_env 401)) (time_window_hours example_coordinator)
       = Inr (1762214400000000, 1762300800000000)
   \<and> 1762214400000000 = now_utc (example_env 401) - 24 * (3600000000::int)
   \<and> instant_of (fmt (utcoffset (example_env 401)) 1762214400000000)
       < instant_of (fmt (utcoffset (example_env 401)) 1762300800000000)"
proof -
  let ?rq = "build_request (example_env 401)
               (example_coordinator\<lparr>bearer_token := Some ''Bearer abc''\<rparr>)
               ''Bearer abc'' 1762214400000000 1762300800000000"
  have h: "time_window_hours example_coordinator = 24"
    by (simp add: example_coordinator_def coordinator_init_def int_or_def
        DEFAULT_TIME_WINDOW_HOURS_def)
  have upd: "async_update_data (example_env 401) example_coordinator =
      (Inl (HttpStatus 401 ''denied''), example_coordinator\<lparr>bearer_token := None\<rparr>,
       [Acquire ''user@example.com'' ''secret'', HttpGet ?rq])"
    using example_cycle [of 401] by simp
  have sent: "HttpGet ?rq \<in> set [Acquire ''user@example.com'' ''secret'', HttpGet ?rq]"
    by simp
  have n: "now_utc (example_env 401) = 1762300800000000" by (simp add: example_env_def)
  have f: "rq_historyFrom ?rq = fmt (utcoffset (example_env 401)) 1762214400000000"
    and u: "rq_historyUntil ?rq = fmt (utcoffset (example_env 401)) 1762300800000000"
    by (simp_all add: build_request_def)
  from polling_window_since_until [OF upd sent] h n f u
  show ?thesis by auto
qed

section \<open>The config flow\<close>

text \<open>The keys of the persisted entry, from \<^verbatim>\<open>const.py\<close>.\<close>

definition CONF_METER_ID :: string where "CONF_METER_ID = ''meter_id''"
definition CONF_EAN :: string where "CONF_EAN = ''ean''"
definition CONF_BEARER_TOKEN :: string where "CONF_BEARER_TOKEN = ''bearer_token''"
definition CONF_API_BASE :: string where "CONF_API_BASE = ''api_base''"
definition CONF_USERNAME :: string where "CONF_USERNAME = ''username''"
definition CONF_PASSWORD :: string where "CONF_PASSWORD = ''password''"
definition CONF_GRANULARITY :: string where "CONF_GRANULARITY = ''granularity''"
definition CONF_TIME_WINDOW_HOURS :: string where "CONF_TIME_WINDOW_HOURS = ''time_window_hours''"

definition GRANULARITY_CHOICES :: "(string \<times> string) list" where
  "GRANULARITY_CHOICES =
     [(''1'', ''15 minutes''), (''2'', ''30 minutes''), (''3'', ''Daily (per day)'')]"

text \<open>\<^verbatim>\<open>_LABEL_TO_KEY\<close>: the choices, read from the label to the key.\<close>

definition LABEL_TO_KEY :: "(string \<times> string) list" where
  "LABEL_TO_KEY = map (\<lambda>kv. (snd kv, fst kv)) GRANULARITY_CHOICES"

text \<open>
  The form's input, a dictionary whose values the schema has typed: a field is \<open>None\<close>
  when its key is absent.
\<close>

record user_input =
  ui_name :: "string option"
  ui_username :: "string option"
  ui_password :: "string option"
  ui_ean :: "string option"
  ui_meter_id :: "string option"
  ui_api_base :: "string option"
  ui_granularity :: "string option"
  ui_time_window_hours :: "int option"

text \<open>
  \<^verbatim>\<open>s.strip()\<close>: white space is removed at both ends. A character of a string is a code
  point below 256; \<open>is_space\<close> holds of those for which \<^verbatim>\<open>str.isspace\<close> does, the next
  line character U+0085 and the no-break space U+00A0 among them.
\<close>

definition is_space :: "char \<Rightarrow> bool" where
  "is_space c = (c \<in> set [CHR 0x09, CHR 0x0A, CHR 0x0B, CHR 0x0C, CHR 0x0D,
                            CHR 0x1C, CHR 0x1D, CHR 0x1E, CHR 0x1F, CHR 0x20,
                            CHR 0x85, CHR 0xA0])"

definition py_strip :: "string \<Rightarrow> string" where
  "py_strip s = rev (dropWhile is_space (rev (dropWhile is_space s)))"

text \<open>
  \<^verbatim>\<open>_validate_token\<close>. Its request to the API is outside the flow: \<open>probe\<close> tells whether
  the request made with the token, the EAN and the base came back with the status 200 and
  a body that parses.
\<close>

definition validate_token ::
  "(string \<Rightarrow> string \<Rightarrow> string \<Rightarrow> bool) \<Rightarrow> string \<Rightarrow> string \<Rightarrow> string \<Rightarrow> bool" where
  "validate_token probe token ean_in base =
     (if token = [] \<or> py_strip token = [] then False else probe token ean_in base)"

datatype cfg_value = CStr string | CInt int

text \<open>
  What the step returns: the form again, with its errors, or the entry to persist, with
  its title and its data in the order the dictionary is built.
\<close>

datatype flow_result =
    ShowForm "(string \<times> string) list"
  | CreateEntry string "(string \<times> cfg_value) list"

text \<open>\<^verbatim>\<open>FluviusConfigFlow.async_step_user\<close>.\<close>

definition async_step_user ::
  "(string \<Rightarrow> string \<Rightarrow> browser_run) \<Rightarrow> (string \<Rightarrow> string \<Rightarrow> string \<Rightarrow> bool)
     \<Rightarrow> user_input option \<Rightarrow> flow_result" where
  "async_step_user brw probe input =
     (case input of
        None \<Rightarrow> ShowForm []
      | Some ui \<Rightarrow>
          (let usr = py_strip (str_or (ui_username ui) []);
               pwd = py_strip (str_or (ui_password ui) []);
               ean_in = py_strip (str_or (ui_ean ui) []);
               base = py_strip (str_or (ui_api_base ui) ''https://mijn.fluvius.be'');
               gran_label = ui_granularity ui;
               time_window = (case ui_time_window_hours ui of
                                None \<Rightarrow> DEFAULT_TIME_WINDOW_HOURS | Some n \<Rightarrow> n);
               meter = py_strip (str_or (ui_meter_id ui) [])
           in if ean_in = [] then ShowForm [(''base'', ''missing_ean'')]
              else (let token = fetch_bearer_token_sync brw usr pwd
                    in if \<not> opt_truthy token
                       then ShowForm [(''base'', ''invalid_credentials_or_2fa'')]
                       else if \<not> validate_token probe (the token) ean_in base
                       then ShowForm [(''base'', ''invalid_credentials_or_token'')]
                       else (let gran_key =
                                   (case gran_label of
                                      None \<Rightarrow> DEFAULT_GRANULARITY
                                    | Some label \<Rightarrow>
                                        (case map_of LABEL_TO_KEY label of
                                           None \<Rightarrow> DEFAULT_GRANULARITY
                                         | Some k \<Rightarrow> k));
                                 title = (case ui_name ui of
                                            None \<Rightarrow> ''Fluvius Electricity''
                                          | Some n \<Rightarrow> n)
                             in CreateEntry title
                                  [(''name'', CStr title),
                                   (CONF_USERNAME, CStr usr),
                                   (CONF_PASSWORD, CStr pwd),
                                   (CONF_EAN, CStr ean_in),
                                   (CONF_METER_ID, CStr meter),
                                   (CONF_API_BASE, CStr base),
                                   (CONF_GRANULARITY, CStr gran_key),
                                   (CONF_TIME_WINDOW_HOURS, CInt time_window)]))))"

text \<open>
  The data of the entry, as a function of the form's input alone: what the step persists
  whenever it persists anything.
\<close>

lemma async_step_user_data:
  assumes "async_step_user brw probe (Some ui) = CreateEntry title data"
  shows "data =
     [(''name'', CStr (case ui_name ui of None \<Rightarrow> ''Fluvius Electricity'' | Some n \<Rightarrow> n)),
      (''username'', CStr (py_strip (str_or (ui_username ui) []))),
      (''password'', CStr (py_strip (str_or (ui_password ui) []))),
      (''ean'', CStr (py_strip (str_or (ui_ean ui) []))),
      (''meter_id'', CStr (py_strip (str_or (ui_meter_id ui) []))),
      (''api_base'', CStr (py_strip (str_or (ui_api_base ui) ''https://mijn.fluvius.be''))),
      (''granularity'',
         CStr (case ui_granularity ui of
                 None \<Rightarrow> DEFAULT_GRANULARITY
               | Some label \<Rightarrow>
                   (case map_of LABEL_TO_KEY label of
                      None \<Rightarrow> DEFAULT_GRANULARITY
                    | Some k \<Rightarrow> k))),
      (''time_window_hours'',
         CInt (case ui_time_window_hours ui of
                 None \<Rightarrow> DEFAULT_TIME_WINDOW_HOURS
               | Some n \<Rightarrow> n))]"
  using assms
  by (auto simp: async_step_user_def Let_def CONF_USERNAME_def CONF_PASSWORD_def CONF_EAN_def
      CONF_METER_ID_def CONF_API_BASE_def CONF_GRANULARITY_def CONF_TIME_WINDOW_HOURS_def
      split: if_splits)

lemma update_frame:
  "(fst (snd (async_update_data ev s)))\<lparr>bearer_token := bearer_token s, last_data := last_data s\<rparr>
     = s"
proof -
  have "(fst (snd (async_get_bearer_token_if_needed ev s)))\<lparr>bearer_token := bearer_token s\<rparr> = s"
    by (simp add: async_get_bearer_token_if_needed_def set_bearer_token_def Let_def)
  then show ?thesis
    using update_state [of ev s] by auto
qed

text \<open>
  C7. When the config flow creates an entry, the persisted data has exactly the keys
  \<^verbatim>\<open>name\<close>, \<^verbatim>\<open>username\<close>, \<^verbatim>\<open>password\<close>, \<^verbatim>\<open>ean\<close>, \<^verbatim>\<open>meter_id\<close>, \<^verbatim>\<open>api_base\<close>,
  \<^verbatim>\<open>granularity\<close> and \<^verbatim>\<open>time_window_hours\<close>, the key \<^verbatim>\<open>bearer_token\<close> is not among them,
  and whatever token the browser run yields and whatever the validation answers, an entry
  created from the same input has the same data. A cycle of the coordinator writes the
  token to the coordinator's cache and the payload to \<^verbatim>\<open>_last_data\<close> and nowhere else.
\<close>

theorem token_never_persisted:
  assumes "async_step_user brw probe (Some ui) = CreateEntry title data"
  shows "map fst data = [''name'', ''username'', ''password'', ''ean'', ''meter_id'',
                         ''api_base'', ''granularity'', ''time_window_hours'']
    \<and> CONF_BEARER_TOKEN \<notin> set (map fst data)
    \<and> (\<forall>brw' probe' title' data'.
          async_step_user brw' probe' (Some ui) = CreateEntry title' data' \<longrightarrow> data' = data)
    \<and> (fst (snd (async_update_data ev s)))
          \<lparr>bearer_token := bearer_token s, last_data := last_data s\<rparr> = s"
proof -
  note d = async_step_user_data [OF assms]
  have 1: "map fst data = [''name'', ''username'', ''password'', ''ean'', ''meter_id'',
                         ''api_base'', ''granularity'', ''time_window_hours'']"
    by (subst d) simp
  then have 2: "CONF_BEARER_TOKEN \<notin> set (map fst data)"
    by (simp add: CONF_BEARER_TOKEN_def)
  have 3: "\<forall>brw' probe' title' data'.
          async_step_user brw' probe' (Some ui) = CreateEntry title' data' \<longrightarrow> data' = data"
    using d async_step_user_data by blast
  from 1 2 3 update_frame show ?thesis by blast
qed

text \<open>
  An input of the form, and a browser run that captures one API request carrying the
  given token.
\<close>

definition example_input :: user_input where
  "example_input =
     \<lparr>ui_name = Some ''Home'',
      ui_username = Some '' user@example.com'',
      ui_password = Some ''secret'',
      ui_ean = Some ''541448800000000000 '',
      ui_meter_id = None,
      ui_api_base = None,
      ui_granularity = Some ''30 minutes'',
      ui_time_window_hours = Some 48\<rparr>"

definition example_browser :: "string \<Rightarrow> string \<Rightarrow> string \<Rightarrow> browser_run" where
  "example_browser token usr pwd =
     Captured [\<lparr>req_url = ''https://mijn.fluvius.be/verbruik/api/meters'',
                req_authorization = Some token\<rparr>]"

definition example_probe :: "string \<Rightarrow> string \<Rightarrow> string \<Rightarrow> bool" where
  "example_probe token ean_in base = True"

lemma example_step:
  assumes "prefix ''Bearer'' tok"
  shows "async_step_user (example_browser tok) example_probe (Some example_input) =
     CreateEntry ''Home''
       [(''name'', CStr ''Home''),
        (''username'', CStr ''user@example.com''),
        (''password'', CStr ''secret''),
        (''ean'', CStr ''541448800000000000''),
        (''meter_id'', CStr []),
        (''api_base'', CStr ''https://mijn.fluvius.be''),
        (''granularity'', CStr ''2''),
        (''time_window_hours'', CInt 48)]"
proof -
  from assms obtain rest where tok: "tok = CHR ''B'' # rest" by (auto simp: prefix_def)
  have ne: "tok \<noteq> []" by (simp add: tok)
  have f: "fetch_bearer_token_sync (example_browser tok) usr pwd = Some tok" for usr pwd
    using assms by (simp add: fetch_bearer_token_sync_def example_browser_def tok)
  have "\<not> is_space (CHR ''B'')" by (simp add: is_space_def)
  then have "dropWhile is_space (rev (dropWhile is_space tok)) \<noteq> []"
    by (simp add: tok dropWhile_append)
  then have s: "py_strip tok \<noteq> []" by (simp add: py_strip_def)
  have v: "validate_token example_probe tok e b" for e b
    using s by (simp add: validate_token_def example_probe_def tok)
  have u: "py_strip '' user@example.com'' = ''user@example.com''"
    and p: "py_strip ''secret'' = ''secret''"
    and e: "py_strip ''541448800000000000 '' = ''541448800000000000''"
    and m: "py_strip [] = []"
    and b: "py_strip ''https://mijn.fluvius.be'' = ''https://mijn.fluvius.be''"
    by (simp_all add: py_strip_def is_space_def)
  show ?thesis
    by (simp add: async_step_user_def example_input_def ne f v u p e m b str_or_def Let_def
        LABEL_TO_KEY_def GRANULARITY_CHOICES_def
        CONF_USERNAME_def CONF_PASSWORD_def CONF_EAN_def CONF_METER_ID_def CONF_API_BASE_def
        CONF_GRANULARITY_def CONF_TIME_WINDOW_HOURS_def)
qed

theorem token_never_persisted_witness:
  "async_step_user (example_browser ''Bearer abc'') example_probe (Some example_input)
     = async_step_user (example_browser ''Bearer xyz'') example_probe (Some example_input)
   \<and> fetch_bearer_token_sync (example_browser ''Bearer abc'') ''user@example.com'' ''secret''
       = Some ''Bearer abc''
   \<and> fetch_bearer_token_sync (example_browser ''Bearer xyz'') ''user@example.com'' ''secret''
       = Some ''Bearer xyz''
   \<and> async_step_user (example_browser ''Bearer abc'') example_probe (Some example_input)
     = CreateEntry ''Home''
         [(''name'', CStr ''Home''),
          (''username'', CStr ''user@example.com''),
          (''password'', CStr ''secret''),
          (''ean'', CStr ''541448800000000000''),
          (''meter_id'', CStr []),
          (''api_base'', CStr ''https://mijn.fluvius.be''),
          (''granularity'', CStr ''2''),
          (''time_window_hours'', CInt 48)]"
proof -
  let ?data = "[(''name'', CStr ''Home''),
          (''username'', CStr ''user@example.com''),
          (''password'', CStr ''secret''),
          (''ean'', CStr ''541448800000000000''),
          (''meter_id'', CStr []),
          (''api_base'', CStr ''https://mijn.fluvius.be''),
          (''granularity'', CStr ''2''),
          (''time_window_hours'', CInt 48)]"
  have a: "async_step_user (example_browser ''Bearer abc'') example_probe (Some example_input)
             = CreateEntry ''Home'' ?data"
    by (rule example_step) simp
  obtain r where r: "async_step_user (example_browser ''Bearer xyz'') example_probe
                       (Some example_input) = r" by simp
  have b: "r = CreateEntry ''Home'' ?data"
    using example_step [of "''Bearer xyz''"] r by simp
  from token_never_persisted [OF a] r b
  have "async_step_user (example_browser ''Bearer xyz'') example_probe (Some example_input)
          = CreateEntry ''Home'' ?data"
    by blast
  with a show ?thesis
    by (simp add: fetch_bearer_token_sync_def example_browser_def)
qed

end
